theory Spec2Isabelle
  imports Main "HOL-Library.Finite_Map" "HOL-Library.Sublist"
begin

section \<open>Woodwork column accessor (\<^verbatim>\<open>woodwork/column_accessor.py\<close>)\<close>

text \<open>
  A shallow embedding of \<^verbatim>\<open>WoodworkColumnAccessor\<close>. The accessor is a record of its two
  attributes, \<^verbatim>\<open>_series\<close> and \<^verbatim>\<open>_schema\<close>; a method that mutates the accessor takes it as
  argument and returns it updated, paired with the outcome of the call: \<open>Inl e\<close> when the
  Python raises \<open>e\<close> (the accessor returned is then the one at the point of the raise),
  \<open>Inr v\<close> when it returns \<open>v\<close>. Attribute names lose their leading underscore, which an
  Isabelle name cannot start with.
\<close>

subsection \<open>Python values and exceptions\<close>

text \<open>
  The Python objects that reach the accessor as description, metadata, column name or
  column cell. A dictionary has string keys and compares, as in Python, without regard
  to insertion order (a finite map). \<open>PyObject n\<close> is an arbitrary object with identity
  \<open>n\<close> and no JSON form. Floating-point numbers are not modelled.
\<close>

datatype pyval =
    PyNone
  | PyInt int
  | PyStr string
  | PyList "pyval list"
  | PyDict "(string, pyval) fmap"
  | PyObject nat

text \<open>
  The exception classes. \<open>ValueError\<close> and \<open>TypeError\<close> are raised by the code under
  study; \<open>KeyError\<close> and \<open>AttributeError\<close> are Python's errors for a missing key or
  attribute; \<open>ValidationError\<close> is the name section 7 of the specification gives to what
  the ordered-categorical validation hook raises.
\<close>

datatype error =
    is_ValueError: ValueError string
  | is_TypeError: TypeError string
  | is_KeyError: KeyError string
  | is_AttributeError: AttributeError string
  | is_ValidationError: ValidationError string

subsection \<open>The host library's column\<close>

text \<open>
  A pandas dtype. \<open>Dtype n\<close> is a dtype without parameters, determined by its name
  (\<^verbatim>\<open>int64\<close>, \<^verbatim>\<open>float64\<close>, \<^verbatim>\<open>object\<close>, \<^verbatim>\<open>string\<close>, \<^verbatim>\<open>boolean\<close>, ...). A categorical dtype
  carries its categories and whether they are ordered. \<open>str_dtype\<close> is Python's \<^verbatim>\<open>str\<close>
  on a dtype: the dtype's name, which for every categorical dtype is \<^verbatim>\<open>category\<close>.
\<close>

datatype dtype =
    Dtype string
  | CategoricalDtype (categories: "pyval list") (ordered: bool)

fun str_dtype :: "dtype \<Rightarrow> string" where
  "str_dtype (Dtype n) = n"
| "str_dtype (CategoricalDtype cs b) = ''category''"

text \<open>
  A pandas Series as section 3 of the specification sees it: a name, a physical storage
  type and an ordered sequence of cells, where \<open>None\<close> is a missing-value marker.
\<close>

record series =
  name :: pyval
  dtype :: dtype
  cells :: "pyval option list"

text \<open>
  Modelled from the spec: \<^verbatim>\<open>Series.equals\<close> belongs to the host library and is not under
  src/. Section 4.1 describes the comparison as element-wise: same length, same values in
  order, a missing-value marker equal to a missing-value marker at the same position.
\<close>

fun equals_cells :: "pyval option list \<Rightarrow> pyval option list \<Rightarrow> bool" where
  "equals_cells [] [] = True"
| "equals_cells (x # xs) (y # ys) =
     ((case (x, y) of
         (None, None) \<Rightarrow> True
       | (Some u, Some v) \<Rightarrow> u = v
       | _ \<Rightarrow> False) \<and> equals_cells xs ys)"
| "equals_cells _ _ = False"

definition equals :: "series \<Rightarrow> series \<Rightarrow> bool" where
  "equals s t = equals_cells (cells s) (cells t)"

subsection \<open>Logical types\<close>

text \<open>
  Modelled from the spec: the logical-type catalog (\<^verbatim>\<open>woodwork.logical_types\<close>) is not under
  src/. By section 6 every entry exposes the physical type it requires (the attribute
  \<^verbatim>\<open>pandas_dtype\<close> that the accessor reads, a dtype name) and its standard tags; the
  ordered-categorical entry \<open>Ordinal\<close> additionally carries its declared order. The
  accessor tells \<open>Ordinal\<close> apart with \<^verbatim>\<open>isinstance\<close>, here the discriminator \<open>is_Ordinal\<close>.
\<close>

datatype logical_type =
    is_LogicalType: LogicalType (type_name: string) (pandas_dtype: string)
      (standard_tags: "string set")
  | is_Ordinal: Ordinal (pandas_dtype: string) (standard_tags: "string set")
      (order: "pyval list")

fun str_logical_type :: "logical_type \<Rightarrow> string" where
  "str_logical_type (LogicalType n d ts) = n"
| "str_logical_type (Ordinal d ts ord) = ''Ordinal''"

text \<open>
  Modelled from the spec: the collaborators of section 6 whose code is not under src/
  and whose behaviour the specification leaves to them. They are parameters of the
  model: \<open>infer\<close> is the type inference \<^verbatim>\<open>infer(column, name)\<close>, \<open>catalog\<close> looks a logical type
  up by its name, and \<open>validate_data\<close> is the validation hook of the ordered-categorical
  type (\<^verbatim>\<open>Ordinal._validate_data\<close>), which raises or returns nothing.
\<close>

record env =
  infer :: "series \<Rightarrow> pyval \<Rightarrow> error + logical_type"
  catalog :: "string \<Rightarrow> error + logical_type"
  validate_data :: "logical_type \<Rightarrow> series \<Rightarrow> error + unit"

text \<open>
  The \<^verbatim>\<open>logical_type\<close> argument of \<^verbatim>\<open>init\<close>: absent (\<^verbatim>\<open>None\<close>), a string naming a catalog
  entry, or a logical type. The \<^verbatim>\<open>semantic_tags\<close> argument: absent, one string, or a
  collection of strings.
\<close>

datatype logical_type_arg = LtAbsent | LtName string | LtInstance logical_type

datatype tags_arg = TagsAbsent | TagStr string | TagColl "string list"

text \<open>
  Modelled from the spec: \<^verbatim>\<open>_get_column_logical_type\<close> (\<^verbatim>\<open>woodwork.utils\<close>) is not under src/.
  Step 1 of \<^verbatim>\<open>initialize\<close> in section 4.1: an explicit value takes precedence, a string is
  resolved in the catalog, and an absent value triggers inference from the column and its
  name.
\<close>

definition get_column_logical_type ::
  "env \<Rightarrow> series \<Rightarrow> logical_type_arg \<Rightarrow> pyval \<Rightarrow> error + logical_type" where
  "get_column_logical_type E s lt nm =
     (case lt of
        LtInstance L \<Rightarrow> Inr L
      | LtName n \<Rightarrow> catalog E n
      | LtAbsent \<Rightarrow> infer E s nm)"

subsection \<open>The schema record and its validators\<close>

text \<open>
  The dictionary held in \<^verbatim>\<open>_schema\<close>, with the keys of section 3 of the specification as
  fields. The accessor reads the keys \<^verbatim>\<open>description\<close>, \<^verbatim>\<open>logical_type\<close>, \<^verbatim>\<open>metadata\<close> and
  \<^verbatim>\<open>semantic_tags\<close> and writes \<^verbatim>\<open>description\<close> and \<^verbatim>\<open>metadata\<close>.
\<close>

record column_dict =
  d_name :: pyval
  d_logical_type :: logical_type
  d_semantic_tags :: "string set"
  d_use_standard_tags :: bool
  d_description :: pyval
  d_metadata :: pyval

text \<open>
  Modelled from the spec: \<^verbatim>\<open>_validate_description\<close> (\<^verbatim>\<open>woodwork.schema_column\<close>) is not under
  src/. Section 4.1: the value must be a string or absent, \<open>TypeError\<close> otherwise.
\<close>

fun validate_description :: "pyval \<Rightarrow> error + unit" where
  "validate_description PyNone = Inr ()"
| "validate_description (PyStr s) = Inr ()"
| "validate_description v = Inl (TypeError ''Column description must be a string'')"

text \<open>
  A value has a JSON form when it is \<^verbatim>\<open>None\<close>, an integer, a string, or a list or a
  dictionary of such values.
\<close>

primrec json_serializable :: "pyval \<Rightarrow> bool" where
  "json_serializable PyNone = True"
| "json_serializable (PyInt i) = True"
| "json_serializable (PyStr s) = True"
| "json_serializable (PyList xs) = list_all (\<lambda>b. b) (map json_serializable xs)"
| "json_serializable (PyDict m) = fmpred (\<lambda>k b. b) (fmmap json_serializable m)"
| "json_serializable (PyObject n) = False"

text \<open>
  Modelled from the spec: \<^verbatim>\<open>_validate_metadata\<close> (\<^verbatim>\<open>woodwork.schema_column\<close>) is not under
  src/. Section 4.1: the value must be a mapping with JSON-serializable values,
  \<open>TypeError\<close> otherwise.
\<close>

definition validate_metadata :: "pyval \<Rightarrow> error + unit" where
  "validate_metadata v =
     (case v of
        PyDict m \<Rightarrow>
          (if fmpred (\<lambda>k. json_serializable) m then Inr ()
           else Inl (TypeError ''Column metadata must be JSON serializable''))
      | _ \<Rightarrow> Inl (TypeError ''Column metadata must be a dictionary''))"

fun normalize_tags :: "tags_arg \<Rightarrow> string set" where
  "normalize_tags TagsAbsent = {}"
| "normalize_tags (TagStr t) = {t}"
| "normalize_tags (TagColl ts) = set ts"

text \<open>
  Modelled from the spec: \<^verbatim>\<open>_get_column_dict\<close> (\<^verbatim>\<open>woodwork.schema_column\<close>) is not under src/.
  Steps 4 and 5 of \<^verbatim>\<open>initialize\<close> in section 4.1 and the validators of section 6: the
  description and the metadata are validated (an absent metadata defaults to the empty
  mapping), the tag set is the standard tags of the type, when enabled, united with the
  caller's tags, and the full record is built.
\<close>

definition get_column_dict ::
  "pyval \<Rightarrow> logical_type \<Rightarrow> tags_arg \<Rightarrow> bool \<Rightarrow> pyval \<Rightarrow> pyval \<Rightarrow> error + column_dict" where
  "get_column_dict nm L tags use_std desc md =
     (case validate_description desc of
        Inl e \<Rightarrow> Inl e
      | Inr _ \<Rightarrow>
          (let md' = (if md = PyNone then PyDict fmempty else md) in
           case validate_metadata md' of
             Inl e \<Rightarrow> Inl e
           | Inr _ \<Rightarrow>
               Inr \<lparr>d_name = nm, d_logical_type = L,
                    d_semantic_tags =
                      (if use_std then standard_tags L else {}) \<union> normalize_tags tags,
                    d_use_standard_tags = use_std,
                    d_description = desc,
                    d_metadata = md'\<rparr>))"

subsection \<open>The accessor\<close>

record WoodworkColumnAccessor =
  series :: series
  schema :: "column_dict option"

text \<open>\<^verbatim>\<open>__init__\<close> (lines 14-16): binds the column and leaves the schema absent.\<close>

definition init_accessor :: "series \<Rightarrow> WoodworkColumnAccessor" where
  "init_accessor s = \<lparr>series = s, schema = None\<rparr>"

text \<open>
  \<^verbatim>\<open>_validate_logical_type\<close> (lines 90-99). The comparison of line 93 is between two
  strings: the type's \<^verbatim>\<open>pandas_dtype\<close> and \<^verbatim>\<open>str\<close> of the column's dtype.
\<close>

definition validate_logical_type ::
  "env \<Rightarrow> WoodworkColumnAccessor \<Rightarrow> logical_type \<Rightarrow> error + unit" where
  "validate_logical_type E self L =
     (if pandas_dtype L \<noteq> str_dtype (dtype (series self)) then
        Inl (ValueError
          (''Cannot initialize Woodwork. Series dtype '' @ [CHR 0x27]
            @ str_dtype (dtype (series self)) @ [CHR 0x27]
            @ '' is incompatible with '' @ str_logical_type L
            @ '' dtype. Try converting series dtype to '' @ [CHR 0x27]
            @ pandas_dtype L @ [CHR 0x27] @ '' before initializing.''))
      else if is_Ordinal L then validate_data E L (series self)
      else Inr ())"

text \<open>
  \<^verbatim>\<open>init\<close> (lines 18-46). The assignment to \<^verbatim>\<open>_schema\<close> is the last statement: when an
  earlier call raises, the accessor is the one the method was called on.
\<close>

definition init ::
  "env \<Rightarrow> WoodworkColumnAccessor \<Rightarrow> logical_type_arg \<Rightarrow> tags_arg \<Rightarrow> bool \<Rightarrow> pyval \<Rightarrow> pyval
     \<Rightarrow> (error + unit) \<times> WoodworkColumnAccessor" where
  "init E self logical_type_a semantic_tags_a use_standard_tags description_a metadata_a =
     (case get_column_logical_type E (series self) logical_type_a (name (series self)) of
        Inl e \<Rightarrow> (Inl e, self)
      | Inr L \<Rightarrow>
          (case validate_logical_type E self L of
             Inl e \<Rightarrow> (Inl e, self)
           | Inr _ \<Rightarrow>
               (case get_column_dict (name (series self)) L semantic_tags_a
                       use_standard_tags description_a metadata_a of
                  Inl e \<Rightarrow> (Inl e, self)
                | Inr d \<Rightarrow> (Inr (), self\<lparr>schema := Some d\<rparr>))))"

text \<open>
  The property getters (lines 48-51, 58-66, 73-76) subscript \<^verbatim>\<open>_schema\<close>. Subscripting
  \<^verbatim>\<open>None\<close> raises Python's \<open>TypeError\<close>.
\<close>

definition not_subscriptable :: error where
  "not_subscriptable = TypeError (CHR 0x27 # ''NoneType'' @ [CHR 0x27] @ '' object is not subscriptable'')"

definition description :: "WoodworkColumnAccessor \<Rightarrow> error + pyval" where
  "description self =
     (case schema self of None \<Rightarrow> Inl not_subscriptable | Some d \<Rightarrow> Inr (d_description d))"

definition logical_type :: "WoodworkColumnAccessor \<Rightarrow> error + logical_type" where
  "logical_type self =
     (case schema self of None \<Rightarrow> Inl not_subscriptable | Some d \<Rightarrow> Inr (d_logical_type d))"

definition metadata :: "WoodworkColumnAccessor \<Rightarrow> error + pyval" where
  "metadata self =
     (case schema self of None \<Rightarrow> Inl not_subscriptable | Some d \<Rightarrow> Inr (d_metadata d))"

definition semantic_tags :: "WoodworkColumnAccessor \<Rightarrow> error + string set" where
  "semantic_tags self =
     (case schema self of None \<Rightarrow> Inl not_subscriptable | Some d \<Rightarrow> Inr (d_semantic_tags d))"

text \<open>
  The property setters (lines 53-56, 68-71) validate, then assign into \<^verbatim>\<open>_schema\<close>.
  Item assignment on \<^verbatim>\<open>None\<close> raises Python's \<open>TypeError\<close>.
\<close>

definition no_item_assignment :: error where
  "no_item_assignment =
     TypeError (CHR 0x27 # ''NoneType'' @ [CHR 0x27] @ '' object does not support item assignment'')"

definition description_setter ::
  "WoodworkColumnAccessor \<Rightarrow> pyval \<Rightarrow> (error + unit) \<times> WoodworkColumnAccessor" where
  "description_setter self v =
     (case validate_description v of
        Inl e \<Rightarrow> (Inl e, self)
      | Inr _ \<Rightarrow>
          (case schema self of
             None \<Rightarrow> (Inl no_item_assignment, self)
           | Some d \<Rightarrow> (Inr (), self\<lparr>schema := Some (d\<lparr>d_description := v\<rparr>)\<rparr>)))"

definition metadata_setter ::
  "WoodworkColumnAccessor \<Rightarrow> pyval \<Rightarrow> (error + unit) \<times> WoodworkColumnAccessor" where
  "metadata_setter self v =
     (case validate_metadata v of
        Inl e \<Rightarrow> (Inl e, self)
      | Inr _ \<Rightarrow>
          (case schema self of
             None \<Rightarrow> (Inl no_item_assignment, self)
           | Some d \<Rightarrow> (Inr (), self\<lparr>schema := Some (d\<lparr>d_metadata := v\<rparr>)\<rparr>)))"

text \<open>\<^verbatim>\<open>__eq__\<close> (lines 78-81).\<close>

definition eq_accessor :: "WoodworkColumnAccessor \<Rightarrow> WoodworkColumnAccessor \<Rightarrow> bool" where
  "eq_accessor self other =
     (if schema self \<noteq> schema other then False
      else equals (series self) (series other))"

subsection \<open>Sample inputs\<close>

text \<open>
  Modelled from the spec: the validation hook of the ordered-categorical type
  (\<^verbatim>\<open>Ordinal._validate_data\<close>, \<^verbatim>\<open>woodwork.logical_types\<close>) is not under src/. Step 3 of
  \<^verbatim>\<open>initialize\<close> in section 4.1 gives two ways for the declared order to be inconsistent with
  the column: it references a value absent from the data, or it contains a duplicate.
\<close>

definition ordinal_validate_data :: "logical_type \<Rightarrow> series \<Rightarrow> error + unit" where
  "ordinal_validate_data L s =
     (if distinct (order L) \<and> list_all (\<lambda>v. Some v \<in> set (cells s)) (order L) then Inr ()
      else Inl (ValidationError ''Ordinal order is inconsistent with the column values''))"

text \<open>
  Two catalog entries, a set of collaborators, a column of integers with one missing
  cell, a column of strings of a categorical dtype, and an accessor that holds a schema
  record: the inputs on which the theorems below are instantiated.
\<close>

definition Integer :: logical_type where
  "Integer = LogicalType ''Integer'' ''int64'' {''numeric''}"

definition Categorical :: logical_type where
  "Categorical = LogicalType ''Categorical'' ''category'' {''category''}"

definition sample_env :: env where
  "sample_env =
     \<lparr>infer = (\<lambda>s nm. Inr (LogicalType ''Unknown'' (str_dtype (dtype s)) {})),
      catalog = (\<lambda>n. if n = ''Integer'' then Inr Integer
                      else if n = ''Categorical'' then Inr Categorical
                      else Inl (ValueError (''String '' @ n @ '' is not a valid logical type''))),
      validate_data = ordinal_validate_data\<rparr>"

definition ages :: series where
  "ages = \<lparr>name = PyStr ''age'', dtype = Dtype ''int64'',
           cells = [Some (PyInt 31), None, Some (PyInt 47)]\<rparr>"

definition sizes :: "pyval list \<Rightarrow> series" where
  "sizes cats = \<lparr>name = PyStr ''size'', dtype = CategoricalDtype cats False,
                 cells = [Some (PyStr ''S''), Some (PyStr ''L'')]\<rparr>"

definition sizes_ordinal :: "pyval list \<Rightarrow> logical_type" where
  "sizes_ordinal ord = Ordinal ''category'' {''category''} ord"

definition ages_dict :: column_dict where
  "ages_dict =
     \<lparr>d_name = PyStr ''age'', d_logical_type = Integer, d_semantic_tags = {''numeric''},
      d_use_standard_tags = True, d_description = PyStr ''age in years'',
      d_metadata = PyDict (fmupd ''unit'' (PyStr ''years'') fmempty)\<rparr>"

definition ages_typed :: WoodworkColumnAccessor where
  "ages_typed = \<lparr>series = ages, schema = Some ages_dict\<rparr>"

section \<open>Properties\<close>

subsection \<open>Auxiliary facts\<close>

lemma equals_cells_eq: "equals_cells xs ys = (xs = ys)"
  by (induction xs ys rule: equals_cells.induct) (auto split: option.splits)

lemma equals_iff_nth:
  "equals s t \<longleftrightarrow>
     length (cells s) = length (cells t) \<and>
     (\<forall>i < length (cells s). cells s ! i = cells t ! i)"
  by (simp add: equals_def equals_cells_eq list_eq_iff_nth_eq)

lemma fmpred_fmupd_iff:
  "fmpred P (fmupd k v m) \<longleftrightarrow> P k v \<and> fmpred P (fmdrop k m)"
  by (auto simp: fmpred_iff split: if_splits)

lemma validate_description_TypeError:
  "validate_description v = Inl e \<Longrightarrow> is_TypeError e"
  by (cases v) auto

lemma validate_metadata_TypeError:
  "validate_metadata v = Inl e \<Longrightarrow> is_TypeError e"
  by (cases v) (auto simp: validate_metadata_def split: if_splits)

lemma get_column_dict_TypeError:
  "get_column_dict nm L tags use_std desc md = Inl e \<Longrightarrow> is_TypeError e"
  by (auto simp: get_column_dict_def Let_def split: sum.splits
      dest: validate_description_TypeError validate_metadata_TypeError)

subsection \<open>Initialization\<close>




text \<open>
  Claim C2. \<^verbatim>\<open>init\<close> is all-or-nothing: whatever the accessor and the arguments, when the
  call raises (in the resolution of the type, the compatibility check, the type-specific
  validation or the construction of the record), the accessor after the call is the
  accessor before the call, with the schema record, or the absence of one, that it had.
\<close>

theorem init_all_or_nothing:
  assumes "fst (init E self lt tags use_std desc md) = Inl e"
  shows "snd (init E self lt tags use_std desc md) = self"
  using assms
  by (simp add: init_def split: sum.splits)

theorem init_all_or_nothing_witness:
  "fst (init sample_env ages_typed (LtName ''Integer'') (TagStr ''index'') True (PyInt 123) PyNone)
     = Inl (TypeError ''Column description must be a string'')
   \<and> snd (init sample_env ages_typed (LtName ''Integer'') (TagStr ''index'') True (PyInt 123) PyNone)
     = ages_typed"
proof -
  have h: "fst (init sample_env ages_typed (LtName ''Integer'') (TagStr ''index'') True
             (PyInt 123) PyNone) = Inl (TypeError ''Column description must be a string'')"
    by (simp add: init_def get_column_logical_type_def sample_env_def validate_logical_type_def
        Integer_def ages_typed_def ages_def get_column_dict_def)
  show ?thesis
    using h init_all_or_nothing [OF h] by simp
qed

text \<open>
  Claim C3, as the code has it. The compatibility check of line 93 compares two names: the
  \<^verbatim>\<open>pandas_dtype\<close> string of the logical type and \<^verbatim>\<open>str\<close> of the column's dtype. With a
  validation hook that accepts everything, so that the check alone decides, the validation
  passes exactly when the two names are equal.
\<close>

theorem compat_check_compares_names:
  "(validate_logical_type (E\<lparr>validate_data := (\<lambda>L s. Inr ())\<rparr>) self L = Inr ())
     = (pandas_dtype L = str_dtype (dtype (series self)))"
  by (simp add: validate_logical_type_def)

text \<open>
  Claim C3, as stated, asks for structural equality of the type descriptors, so that a
  logical type would accept one descriptor only. Two categorical dtypes with different
  categories are structurally distinct and both render as \<^verbatim>\<open>category\<close>: the check
  passes for both against the same logical type.
\<close>

theorem compat_check_two_columns_counterexample:
  "dtype (sizes [PyStr ''S'', PyStr ''L'']) \<noteq> dtype (sizes [PyStr ''L'', PyStr ''S'', PyStr ''M''])
   \<and> validate_logical_type sample_env (init_accessor (sizes [PyStr ''S'', PyStr ''L''])) Categorical
       = Inr ()
   \<and> validate_logical_type sample_env
        (init_accessor (sizes [PyStr ''L'', PyStr ''S'', PyStr ''M''])) Categorical
       = Inr ()"
  by (simp add: sizes_def validate_logical_type_def init_accessor_def Categorical_def)

text \<open>
  Claim C4. Let the logical type argument of \<^verbatim>\<open>init\<close> resolve to \<open>L\<close>. When \<open>L\<close> is \<open>Ordinal\<close>
  and the compatibility check passes, \<^verbatim>\<open>init\<close> runs the type's hook on the column: if the
  hook raises, \<^verbatim>\<open>init\<close> raises the same error and changes nothing; if the hook returns,
  \<^verbatim>\<open>init\<close> goes on to build the record; and, the hook's errors being of the class
  \<open>ValidationError\<close> (section 7 of the specification), \<^verbatim>\<open>init\<close> raises a \<open>ValidationError\<close>
  exactly when the hook reports the order inconsistent. In every other case the hook plays
  no part, any other hook giving the same outcome, and no \<open>ValidationError\<close> is raised. For
  a type that is not \<open>Ordinal\<close> the outcome and the record installed do not depend on the
  cells of the column: no content validation takes place.
\<close>

theorem init_ordinal_hook:
  assumes "get_column_logical_type E (series self) lt (name (series self)) = Inr L"
  shows
    "(is_Ordinal L \<and> pandas_dtype L = str_dtype (dtype (series self)) \<longrightarrow>
        (\<forall>e. validate_data E L (series self) = Inl e
              \<longrightarrow> init E self lt tags use_std desc md = (Inl e, self))
      \<and> (validate_data E L (series self) = Inr ()
              \<longrightarrow> init E self lt tags use_std desc md
                   = (case get_column_dict (name (series self)) L tags use_std desc md of
                        Inl e \<Rightarrow> (Inl e, self)
                      | Inr d \<Rightarrow> (Inr (), self\<lparr>schema := Some d\<rparr>)))
      \<and> ((\<forall>e. validate_data E L (series self) = Inl e \<longrightarrow> is_ValidationError e)
              \<longrightarrow> ((\<exists>e. fst (init E self lt tags use_std desc md) = Inl e \<and> is_ValidationError e)
                     \<longleftrightarrow> (\<exists>e. validate_data E L (series self) = Inl e))))
   \<and> (\<not> (is_Ordinal L \<and> pandas_dtype L = str_dtype (dtype (series self))) \<longrightarrow>
        init (E\<lparr>validate_data := h\<rparr>) self lt tags use_std desc md
          = init E self lt tags use_std desc md
      \<and> (\<forall>e. fst (init E self lt tags use_std desc md) = Inl e \<longrightarrow> \<not> is_ValidationError e))
   \<and> (\<not> is_Ordinal L
        \<and> get_column_logical_type E ((series self)\<lparr>cells := cs\<rparr>) lt (name (series self)) = Inr L
      \<longrightarrow> fst (init E (self\<lparr>series := (series self)\<lparr>cells := cs\<rparr>\<rparr>) lt tags use_std desc md)
            = fst (init E self lt tags use_std desc md)
        \<and> schema (snd (init E (self\<lparr>series := (series self)\<lparr>cells := cs\<rparr>\<rparr>) lt tags use_std desc md))
            = schema (snd (init E self lt tags use_std desc md)))"
proof -
  let ?s = "series self"
  let ?comp = "pandas_dtype L = str_dtype (dtype ?s)"
  let ?r = "init E self lt tags use_std desc md"
  let ?build = "case get_column_dict (name ?s) L tags use_std desc md of
                  Inl e \<Rightarrow> (Inl e, self)
                | Inr d \<Rightarrow> (Inr (), self\<lparr>schema := Some d\<rparr>)"
  have res': "get_column_logical_type (E\<lparr>validate_data := h\<rparr>) ?s lt (name ?s) = Inr L"
    using assms by (simp add: get_column_logical_type_def split: logical_type_arg.splits)
  have build_err: "fst ?build = Inl e \<Longrightarrow> is_TypeError e" for e
    by (auto split: sum.splits dest: get_column_dict_TypeError)
  have TE: "is_TypeError e \<Longrightarrow> \<not> is_ValidationError e" for e
    by (cases e) auto
  have raise: "validate_data E L ?s = Inl e \<Longrightarrow> ?r = (Inl e, self)"
    if "is_Ordinal L" ?comp for e
    using assms that by (simp add: init_def validate_logical_type_def)
  have pass: "validate_data E L ?s = Inr () \<Longrightarrow> ?r = ?build"
    if "is_Ordinal L" ?comp
    using assms that by (simp add: init_def validate_logical_type_def)
  have iff: "(\<exists>e. fst ?r = Inl e \<and> is_ValidationError e) \<longleftrightarrow> (\<exists>e. validate_data E L ?s = Inl e)"
    if o: "is_Ordinal L" ?comp and cls: "\<forall>e. validate_data E L ?s = Inl e \<longrightarrow> is_ValidationError e"
  proof (cases "validate_data E L ?s")
    case (Inl e)
    with raise [OF o] cls show ?thesis by auto
  next
    case (Inr u)
    then have "?r = ?build" using pass [OF o] by simp
    with Inr build_err TE show ?thesis by auto
  qed
  have A: "is_Ordinal L \<and> ?comp \<longrightarrow>
        (\<forall>e. validate_data E L ?s = Inl e \<longrightarrow> ?r = (Inl e, self))
      \<and> (validate_data E L ?s = Inr () \<longrightarrow> ?r = ?build)
      \<and> ((\<forall>e. validate_data E L ?s = Inl e \<longrightarrow> is_ValidationError e)
              \<longrightarrow> ((\<exists>e. fst ?r = Inl e \<and> is_ValidationError e)
                     \<longleftrightarrow> (\<exists>e. validate_data E L ?s = Inl e)))"
    using raise pass iff by blast
  have same: "init (E\<lparr>validate_data := h\<rparr>) self lt tags use_std desc md = ?r"
    if "\<not> (is_Ordinal L \<and> ?comp)"
    using assms res' that by (auto simp: init_def validate_logical_type_def)
  have noval: "\<not> is_ValidationError e"
    if n: "\<not> (is_Ordinal L \<and> ?comp)" and e: "fst ?r = Inl e" for e
  proof (cases ?comp)
    case True
    with n have "?r = ?build" using assms by (simp add: init_def validate_logical_type_def)
    with e build_err TE show ?thesis by auto
  next
    case False
    with e assms show ?thesis by (auto simp: init_def validate_logical_type_def)
  qed
  have B: "\<not> (is_Ordinal L \<and> ?comp) \<longrightarrow>
        init (E\<lparr>validate_data := h\<rparr>) self lt tags use_std desc md = ?r
      \<and> (\<forall>e. fst ?r = Inl e \<longrightarrow> \<not> is_ValidationError e)"
    using same noval by blast
  have C: "\<not> is_Ordinal L
        \<and> get_column_logical_type E (?s\<lparr>cells := cs\<rparr>) lt (name ?s) = Inr L
      \<longrightarrow> fst (init E (self\<lparr>series := ?s\<lparr>cells := cs\<rparr>\<rparr>) lt tags use_std desc md) = fst ?r
        \<and> schema (snd (init E (self\<lparr>series := ?s\<lparr>cells := cs\<rparr>\<rparr>) lt tags use_std desc md))
            = schema (snd ?r)"
    using assms by (auto simp: init_def validate_logical_type_def split: sum.splits)
  from A B C show ?thesis by blast
qed

theorem init_ordinal_hook_witness:
  "get_column_logical_type sample_env (series (init_accessor (sizes [PyStr ''S'', PyStr ''L''])))
       (LtInstance (sizes_ordinal [PyStr ''S'', PyStr ''L'', PyStr ''XL'']))
       (name (series (init_accessor (sizes [PyStr ''S'', PyStr ''L'']))))
     = Inr (sizes_ordinal [PyStr ''S'', PyStr ''L'', PyStr ''XL''])
   \<and> init sample_env (init_accessor (sizes [PyStr ''S'', PyStr ''L'']))
       (LtInstance (sizes_ordinal [PyStr ''S'', PyStr ''L'', PyStr ''XL''])) TagsAbsent True PyNone PyNone
     = (Inl (ValidationError ''Ordinal order is inconsistent with the column values''),
        init_accessor (sizes [PyStr ''S'', PyStr ''L'']))
   \<and> fst (init sample_env (init_accessor (sizes [PyStr ''S'', PyStr ''L'']))
       (LtInstance (sizes_ordinal [PyStr ''L'', PyStr ''S''])) TagsAbsent True PyNone PyNone)
     = Inr ()
   \<and> init (sample_env\<lparr>validate_data := (\<lambda>L s. Inl (ValidationError ''no''))\<rparr>)
       (init_accessor (sizes [PyStr ''S'', PyStr ''L''])) (LtInstance Categorical)
       TagsAbsent True PyNone PyNone
     = init sample_env (init_accessor (sizes [PyStr ''S'', PyStr ''L''])) (LtInstance Categorical)
       TagsAbsent True PyNone PyNone
   \<and> fst (init (sample_env\<lparr>validate_data := (\<lambda>L s. Inl (ValidationError ''no''))\<rparr>)
       (init_accessor (sizes [PyStr ''S'', PyStr ''L''])) (LtInstance Categorical)
       TagsAbsent True PyNone PyNone) = Inr ()"
proof -
  let ?a = "init_accessor (sizes [PyStr ''S'', PyStr ''L''])"
  let ?bad = "sizes_ordinal [PyStr ''S'', PyStr ''L'', PyStr ''XL'']"
  let ?good = "sizes_ordinal [PyStr ''L'', PyStr ''S'']"
  let ?h = "\<lambda>(L::logical_type) (s::series). (Inl (ValidationError ''no'') :: error + unit)"
  have r: "get_column_logical_type sample_env (series ?a) (LtInstance L) (name (series ?a)) = Inr L"
    for L
    by (simp add: get_column_logical_type_def)
  have c: "is_Ordinal (sizes_ordinal ord)
           \<and> pandas_dtype (sizes_ordinal ord) = str_dtype (dtype (series ?a))" for ord
    by (simp add: sizes_ordinal_def init_accessor_def sizes_def)
  have n: "\<not> (is_Ordinal Categorical \<and> pandas_dtype Categorical = str_dtype (dtype (series ?a)))"
    by (simp add: Categorical_def)
  have hb: "validate_data sample_env ?bad (series ?a)
              = Inl (ValidationError ''Ordinal order is inconsistent with the column values'')"
    by (simp add: sample_env_def ordinal_validate_data_def sizes_ordinal_def init_accessor_def
        sizes_def)
  have hg: "validate_data sample_env ?good (series ?a) = Inr ()"
    by (simp add: sample_env_def ordinal_validate_data_def sizes_ordinal_def init_accessor_def
        sizes_def)
  have g: "get_column_dict (name (series ?a)) L TagsAbsent True PyNone PyNone
             = Inr \<lparr>d_name = name (series ?a), d_logical_type = L,
                   d_semantic_tags = standard_tags L, d_use_standard_tags = True,
                   d_description = PyNone, d_metadata = PyDict fmempty\<rparr>" for L
    by (simp add: get_column_dict_def validate_metadata_def)
  have 1: "init sample_env ?a (LtInstance ?bad) TagsAbsent True PyNone PyNone
             = (Inl (ValidationError ''Ordinal order is inconsistent with the column values''), ?a)"
    using init_ordinal_hook [OF r [of ?bad], of TagsAbsent True PyNone PyNone] c [of _] hb
    by blast
  have 2: "init sample_env ?a (LtInstance ?good) TagsAbsent True PyNone PyNone
             = (case get_column_dict (name (series ?a)) ?good TagsAbsent True PyNone PyNone of
                  Inl e \<Rightarrow> (Inl e, ?a)
                | Inr d \<Rightarrow> (Inr (), ?a\<lparr>schema := Some d\<rparr>))"
    using init_ordinal_hook [OF r [of ?good], of TagsAbsent True PyNone PyNone] c [of _] hg
    by blast
  have 3: "init (sample_env\<lparr>validate_data := ?h\<rparr>) ?a (LtInstance Categorical)
             TagsAbsent True PyNone PyNone
           = init sample_env ?a (LtInstance Categorical) TagsAbsent True PyNone PyNone"
    using init_ordinal_hook [OF r [of Categorical], of TagsAbsent True PyNone PyNone ?h] n
    by blast
  have 4: "fst (init sample_env ?a (LtInstance Categorical) TagsAbsent True PyNone PyNone) = Inr ()"
    by (simp add: init_def get_column_logical_type_def validate_logical_type_def
        get_column_dict_def validate_metadata_def Categorical_def init_accessor_def sizes_def)
  from 2 have 5: "fst (init sample_env ?a (LtInstance ?good) TagsAbsent True PyNone PyNone) = Inr ()"
    by (simp add: g)
  from r [of ?bad] 1 5 3 4 show ?thesis by simp
qed

subsection \<open>Equality\<close>

text \<open>
  Claim C5. Two accessors are equal exactly when their schema records are equal and their
  columns have the same length and the same cell at every position, a missing-value marker
  being equal to a missing-value marker. In particular an accessor without a schema record
  is never equal to one with a record, two records that differ in the description only make
  the accessors unequal, and so does a position at which the cells differ.
\<close>

theorem eq_accessor_iff:
  "(eq_accessor a b \<longleftrightarrow>
      schema a = schema b
      \<and> length (cells (series a)) = length (cells (series b))
      \<and> (\<forall>i < length (cells (series a)). cells (series a) ! i = cells (series b) ! i))
   \<and> (schema a = None \<and> schema b \<noteq> None \<longrightarrow> \<not> eq_accessor a b \<and> \<not> eq_accessor b a)
   \<and> (schema a = Some d \<and> schema b = Some (d\<lparr>d_description := v\<rparr>) \<and> v \<noteq> d_description d
        \<longrightarrow> \<not> eq_accessor a b)
   \<and> (i < length (cells (series a)) \<and> cells (series a) ! i \<noteq> cells (series b) ! i
        \<longrightarrow> \<not> eq_accessor a b)"
proof -
  have main: "eq_accessor a b \<longleftrightarrow>
      schema a = schema b
      \<and> length (cells (series a)) = length (cells (series b))
      \<and> (\<forall>i < length (cells (series a)). cells (series a) ! i = cells (series b) ! i)"
    by (simp add: eq_accessor_def equals_iff_nth)
  have uninit: "schema a = None \<and> schema b \<noteq> None \<longrightarrow> \<not> eq_accessor a b \<and> \<not> eq_accessor b a"
    by (auto simp: eq_accessor_def)
  have descr: "schema a = Some d \<and> schema b = Some (d\<lparr>d_description := v\<rparr>) \<and> v \<noteq> d_description d
        \<longrightarrow> \<not> eq_accessor a b"
  proof (intro impI)
    assume h: "schema a = Some d \<and> schema b = Some (d\<lparr>d_description := v\<rparr>) \<and> v \<noteq> d_description d"
    have "d_description (d\<lparr>d_description := v\<rparr>) = v" by simp
    with h have "d \<noteq> d\<lparr>d_description := v\<rparr>" by metis
    with h show "\<not> eq_accessor a b" by (simp add: eq_accessor_def)
  qed
  have val: "i < length (cells (series a)) \<and> cells (series a) ! i \<noteq> cells (series b) ! i
        \<longrightarrow> \<not> eq_accessor a b"
    using main by blast
  from main uninit descr val show ?thesis by blast
qed

theorem eq_accessor_iff_witness:
  "eq_accessor ages_typed ages_typed
   \<and> \<not> eq_accessor (init_accessor ages) ages_typed
   \<and> \<not> eq_accessor ages_typed (ages_typed\<lparr>schema := Some (ages_dict\<lparr>d_description := PyNone\<rparr>)\<rparr>)
   \<and> \<not> eq_accessor ages_typed
         (ages_typed\<lparr>series := ages\<lparr>cells := [Some (PyInt 31), Some (PyInt 0), Some (PyInt 47)]\<rparr>\<rparr>)"
proof -
  let ?b = "ages_typed\<lparr>schema := Some (ages_dict\<lparr>d_description := PyNone\<rparr>)\<rparr>"
  let ?c = "ages_typed\<lparr>series := ages\<lparr>cells := [Some (PyInt 31), Some (PyInt 0), Some (PyInt 47)]\<rparr>\<rparr>"
  have 1: "eq_accessor ages_typed ages_typed"
    using eq_accessor_iff [of ages_typed ages_typed] by simp
  have 2: "\<not> eq_accessor (init_accessor ages) ages_typed"
    using eq_accessor_iff [of "init_accessor ages" ages_typed]
    by (simp add: init_accessor_def ages_typed_def)
  have 3: "\<not> eq_accessor ages_typed ?b"
    using eq_accessor_iff [of ages_typed ?b ages_dict PyNone]
    by (simp add: ages_typed_def ages_dict_def)
  have v: "1 < length (cells (series ages_typed))
           \<and> cells (series ages_typed) ! 1 \<noteq> cells (series ?c) ! 1"
    by (simp add: ages_typed_def ages_def)
  have 4: "\<not> eq_accessor ages_typed ?c"
    using eq_accessor_iff [of ages_typed ?c ages_dict PyNone 1] v by blast
  from 1 2 3 4 show ?thesis by simp
qed

text \<open>
  Claim C10. Two accessors that were never initialized both hold the absent schema record:
  they are equal exactly when their columns are element-wise equal.
\<close>

theorem eq_uninitialized:
  "eq_accessor (init_accessor s) (init_accessor t) \<longleftrightarrow>
     length (cells s) = length (cells t) \<and> (\<forall>i < length (cells s). cells s ! i = cells t ! i)"
  by (simp add: eq_accessor_def init_accessor_def equals_iff_nth)

theorem eq_uninitialized_witness:
  "eq_accessor (init_accessor ages) (init_accessor (ages\<lparr>name := PyStr ''years''\<rparr>))
   \<and> \<not> eq_accessor (init_accessor ages) (init_accessor (ages\<lparr>cells := [Some (PyInt 31), None]\<rparr>))"
proof -
  have 1: "eq_accessor (init_accessor ages) (init_accessor (ages\<lparr>name := PyStr ''years''\<rparr>))"
    using eq_uninitialized [of ages "ages\<lparr>name := PyStr ''years''\<rparr>"] by simp
  have 2: "\<not> eq_accessor (init_accessor ages) (init_accessor (ages\<lparr>cells := [Some (PyInt 31), None]\<rparr>))"
    using eq_uninitialized [of ages "ages\<lparr>cells := [Some (PyInt 31), None]\<rparr>"]
    by (simp add: ages_def)
  from 1 2 show ?thesis by simp
qed

subsection \<open>Properties of an accessor without a schema record\<close>

text \<open>
  Claim C6, as the code has it. On an accessor whose schema record is absent, which is
  every accessor on which \<^verbatim>\<open>init\<close> has not succeeded, reading \<^verbatim>\<open>logical_type\<close>,
  \<^verbatim>\<open>semantic_tags\<close>, \<^verbatim>\<open>description\<close> or \<^verbatim>\<open>metadata\<close> raises an error and returns no default
  value. The error is the \<open>TypeError\<close> of subscripting \<^verbatim>\<open>None\<close>.
\<close>

theorem uninitialized_read_raises:
  assumes "schema self = None"
  shows "logical_type self = Inl not_subscriptable
       \<and> semantic_tags self = Inl not_subscriptable
       \<and> description self = Inl not_subscriptable
       \<and> metadata self = Inl not_subscriptable
       \<and> is_TypeError not_subscriptable"
  using assms
  by (simp add: logical_type_def semantic_tags_def description_def metadata_def
      not_subscriptable_def)

theorem uninitialized_read_raises_witness:
  "schema (init_accessor ages) = None
   \<and> logical_type (init_accessor ages) = Inl not_subscriptable
   \<and> semantic_tags (init_accessor ages) = Inl not_subscriptable
   \<and> description (init_accessor ages) = Inl not_subscriptable
   \<and> metadata (init_accessor ages) = Inl not_subscriptable"
proof -
  have h: "schema (init_accessor ages) = None"
    by (simp add: init_accessor_def)
  show ?thesis
    using h uninitialized_read_raises [OF h] by simp
qed

text \<open>
  Claim C6, as stated, places the error in the class of the attribute or key that is not
  found. On a fresh accessor the error of reading \<^verbatim>\<open>logical_type\<close> is a \<open>TypeError\<close>,
  neither a \<open>KeyError\<close> nor an \<open>AttributeError\<close>.
\<close>

theorem uninitialized_read_counterexample:
  "logical_type (init_accessor ages) = Inl not_subscriptable
   \<and> is_TypeError not_subscriptable
   \<and> \<not> is_KeyError not_subscriptable
   \<and> \<not> is_AttributeError not_subscriptable"
  by (simp add: logical_type_def init_accessor_def not_subscriptable_def)

text \<open>
  Claim C9. On an accessor whose schema record is absent both setters raise, whatever the
  value, and leave the accessor as it was, without a record. For a value that its validator
  accepts the error is the \<open>TypeError\<close> of assigning an item of \<^verbatim>\<open>None\<close>.
\<close>

theorem setters_need_a_record:
  assumes "schema self = None"
  shows "(\<exists>e. description_setter self v = (Inl e, self))
       \<and> (\<exists>e. metadata_setter self v = (Inl e, self))
       \<and> (validate_description v = Inr ()
            \<longrightarrow> description_setter self v = (Inl no_item_assignment, self))
       \<and> (validate_metadata v = Inr ()
            \<longrightarrow> metadata_setter self v = (Inl no_item_assignment, self))"
  using assms
  by (simp add: description_setter_def metadata_setter_def split: sum.splits)

theorem setters_need_a_record_witness:
  "schema (init_accessor ages) = None
   \<and> validate_description (PyStr ''text'') = Inr ()
   \<and> description_setter (init_accessor ages) (PyStr ''text'')
       = (Inl no_item_assignment, init_accessor ages)
   \<and> validate_metadata (PyDict fmempty) = Inr ()
   \<and> metadata_setter (init_accessor ages) (PyDict fmempty)
       = (Inl no_item_assignment, init_accessor ages)"
proof -
  have h: "schema (init_accessor ages) = None"
    by (simp add: init_accessor_def)
  have d: "validate_description (PyStr ''text'') = Inr ()" by simp
  have m: "validate_metadata (PyDict fmempty) = Inr ()" by (simp add: validate_metadata_def)
  show ?thesis
    using h d m setters_need_a_record [OF h, of "PyStr ''text''"]
      setters_need_a_record [OF h, of "PyDict fmempty"]
    by simp
qed

subsection \<open>Setters on an initialized accessor\<close>

text \<open>
  Claim C7. On an accessor that holds a schema record, the description setter raises
  \<open>TypeError\<close> for a value that is neither a string nor absent and leaves the accessor, and
  so the stored description and the rest of the record, unchanged; for a string it
  overwrites the description, and reading the description afterwards returns that string.
\<close>

theorem description_setter_validates:
  assumes "schema self = Some d"
  shows "(v \<noteq> PyNone \<and> (\<forall>s. v \<noteq> PyStr s)
            \<longrightarrow> (\<exists>m. description_setter self v = (Inl (TypeError m), self)))
       \<and> description_setter self (PyStr s)
           = (Inr (), self\<lparr>schema := Some (d\<lparr>d_description := PyStr s\<rparr>)\<rparr>)
       \<and> description (snd (description_setter self (PyStr s))) = Inr (PyStr s)"
  using assms
  by (cases v) (simp_all add: description_setter_def description_def)

theorem description_setter_validates_witness:
  "schema ages_typed = Some ages_dict
   \<and> (\<exists>m. description_setter ages_typed (PyInt 123) = (Inl (TypeError m), ages_typed))
   \<and> description (snd (description_setter ages_typed (PyStr ''text''))) = Inr (PyStr ''text'')"
proof -
  have h: "schema ages_typed = Some ages_dict"
    by (simp add: ages_typed_def)
  show ?thesis
    using h description_setter_validates [OF h, of "PyInt 123" "''text''"] by blast
qed

text \<open>
  Claim C8. On an accessor that holds a schema record, setting the metadata to a mapping
  of JSON-serializable values replaces the stored mapping by the new one: reading the
  metadata returns the new mapping, a key that the new mapping lacks is absent afterwards
  even when the old mapping had it, and the name, the logical type, the semantic tags, the
  standard-tags flag and the description are unchanged. A value that is not a mapping, or a
  mapping with a value that is not JSON-serializable, raises \<open>TypeError\<close> and changes
  nothing.
\<close>

theorem metadata_setter_replaces:
  assumes "schema self = Some d"
  shows "(fmpred (\<lambda>k. json_serializable) m \<longrightarrow>
            metadata_setter self (PyDict m)
              = (Inr (), self\<lparr>schema := Some (d\<lparr>d_metadata := PyDict m\<rparr>)\<rparr>)
            \<and> metadata (snd (metadata_setter self (PyDict m))) = Inr (PyDict m)
            \<and> (\<exists>d'. schema (snd (metadata_setter self (PyDict m))) = Some d'
                  \<and> d_name d' = d_name d
                  \<and> d_logical_type d' = d_logical_type d
                  \<and> d_semantic_tags d' = d_semantic_tags d
                  \<and> d_use_standard_tags d' = d_use_standard_tags d
                  \<and> d_description d' = d_description d)
            \<and> (\<forall>k. fmlookup m k = None \<longrightarrow>
                  (\<exists>m'. metadata (snd (metadata_setter self (PyDict m))) = Inr (PyDict m')
                     \<and> fmlookup m' k = None)))
       \<and> ((\<forall>m'. v \<noteq> PyDict m') \<or> (v = PyDict m \<and> \<not> fmpred (\<lambda>k. json_serializable) m)
            \<longrightarrow> (\<exists>msg. metadata_setter self v = (Inl (TypeError msg), self)))"
  using assms
  by (cases v) (simp_all add: metadata_setter_def validate_metadata_def metadata_def)

theorem metadata_setter_replaces_witness:
  "schema ages_typed = Some ages_dict
   \<and> metadata ages_typed = Inr (PyDict (fmupd ''unit'' (PyStr ''years'') fmempty))
   \<and> metadata (snd (metadata_setter ages_typed (PyDict (fmupd ''k'' (PyInt 1) fmempty))))
       = Inr (PyDict (fmupd ''k'' (PyInt 1) fmempty))
   \<and> fmlookup (fmupd ''k'' (PyInt 1) fmempty) ''unit'' = None
   \<and> description (snd (metadata_setter ages_typed (PyDict (fmupd ''k'' (PyInt 1) fmempty))))
       = Inr (PyStr ''age in years'')
   \<and> (\<exists>msg. metadata_setter ages_typed (PyDict (fmupd ''k'' (PyObject 0) fmempty))
         = (Inl (TypeError msg), ages_typed))
   \<and> (\<exists>msg. metadata_setter ages_typed (PyList []) = (Inl (TypeError msg), ages_typed))"
proof -
  let ?m = "fmupd ''k'' (PyInt 1) fmempty"
  let ?bad = "fmupd ''k'' (PyObject 0) fmempty"
  have h: "schema ages_typed = Some ages_dict"
    by (simp add: ages_typed_def)
  have ok: "fmpred (\<lambda>k. json_serializable) ?m"
    by (simp add: fmpred_fmupd_iff)
  have bad: "\<not> fmpred (\<lambda>k. json_serializable) ?bad"
    by (simp add: fmpred_fmupd_iff)
  have 1: "metadata_setter ages_typed (PyDict ?m)
             = (Inr (), ages_typed\<lparr>schema := Some (ages_dict\<lparr>d_metadata := PyDict ?m\<rparr>)\<rparr>)"
    using metadata_setter_replaces [OF h, of ?m] ok by blast
  have 2: "\<exists>msg. metadata_setter ages_typed (PyDict ?bad) = (Inl (TypeError msg), ages_typed)"
    using metadata_setter_replaces [OF h, of ?bad "PyDict ?bad"] bad by blast
  have 3: "\<exists>msg. metadata_setter ages_typed (PyList []) = (Inl (TypeError msg), ages_typed)"
    using metadata_setter_replaces [OF h, of _ "PyList []"] by simp
  have 4: "metadata ages_typed = Inr (PyDict (fmupd ''unit'' (PyStr ''years'') fmempty))"
    by (simp add: metadata_def ages_typed_def ages_dict_def)
  have 5: "description (ages_typed\<lparr>schema := Some (ages_dict\<lparr>d_metadata := PyDict ?m\<rparr>)\<rparr>)
             = Inr (PyStr ''age in years'')"
    by (simp add: description_def ages_dict_def)
  have 6: "metadata (ages_typed\<lparr>schema := Some (ages_dict\<lparr>d_metadata := PyDict ?m\<rparr>)\<rparr>)
             = Inr (PyDict ?m)"
    by (simp add: metadata_def)
  from h 1 2 3 4 5 6 show ?thesis by simp
qed

end
